theory Spec2Isabelle
  imports Main "HOL-Library.Char_ord" "HOL-Library.List_Lexorder"
begin

section \<open>Python strings\<close>

text \<open>
  A Python \<open>str\<close> is a sequence of code points. The model uses \<^typ>\<open>string\<close> with one
  \<^typ>\<open>char\<close> per code point, restricted to U+0000..U+00FF (the Latin-1 block), so that
  \<^const>\<open>length\<close> is Python's \<open>len\<close>. The block is closed under \<open>str.lower\<close>, and every
  function below is the restriction of the Python one to it.
\<close>

definition isspace :: "char \<Rightarrow> bool" where
  \<comment> \<open>\<open>str.isspace\<close> and the regex class \<open>\s\<close> on a str pattern: TAB..CR, FS..US, SPACE,
      NEL (U+0085) and NBSP (U+00A0).\<close>
  "isspace c = (let n = (of_char c :: nat) in
     (9 \<le> n \<and> n \<le> 13) \<or> (28 \<le> n \<and> n \<le> 31) \<or> n = 32 \<or> n = 133 \<or> n = 160)"

definition is_linebreak :: "char \<Rightarrow> bool" where
  \<comment> \<open>the line boundaries of \<open>str.splitlines\<close>: LF, VT, FF, CR, FS, GS, RS and NEL.\<close>
  "is_linebreak c = (let n = (of_char c :: nat) in
     (10 \<le> n \<and> n \<le> 13) \<or> (28 \<le> n \<and> n \<le> 30) \<or> n = 133)"

definition is_upper :: "char \<Rightarrow> bool" where
  \<comment> \<open>the code points that \<open>str.lower\<close> changes: A..Z and U+00C0..U+00DE without U+00D7.\<close>
  "is_upper c = (let n = (of_char c :: nat) in
     (65 \<le> n \<and> n \<le> 90) \<or> (192 \<le> n \<and> n \<le> 222 \<and> n \<noteq> 215))"

definition lower_char :: "char \<Rightarrow> char" where
  "lower_char c = (if is_upper c then char_of ((of_char c :: nat) + 32) else c)"

definition py_lower :: "string \<Rightarrow> string" where
  \<comment> \<open>\<open>s.lower()\<close>\<close>
  "py_lower s = map lower_char s"

definition py_strip :: "string \<Rightarrow> string" where
  \<comment> \<open>\<open>s.strip()\<close>\<close>
  "py_strip s = rev (dropWhile isspace (rev (dropWhile isspace s)))"

definition startswith :: "string \<Rightarrow> string \<Rightarrow> bool" where
  \<comment> \<open>\<open>s.startswith(p)\<close>\<close>
  "startswith s p = (take (length p) s = p)"

fun contains :: "string \<Rightarrow> string \<Rightarrow> bool" where
  \<comment> \<open>\<open>k in s\<close> for two strings: \<open>k\<close> occurs in \<open>s\<close> as a substring.\<close>
  "contains [] k = (k = [])"
| "contains (c # cs) k = (startswith (c # cs) k \<or> contains cs k)"

definition first_line :: "string \<Rightarrow> string" where
  \<comment> \<open>\<open>s.splitlines()[0]\<close> for a non-empty \<open>s\<close> (the only use in the source).\<close>
  "first_line s = takeWhile (\<lambda>c. \<not> is_linebreak c) s"

function collapse_ws :: "string \<Rightarrow> string" where
  \<comment> \<open>\<open>re.sub(r'\s+', ' ', s)\<close>: every maximal run of whitespace becomes one space.\<close>
  "collapse_ws [] = []"
| "collapse_ws (c # cs) =
     (if isspace c then CHR '' '' # collapse_ws (dropWhile isspace cs)
      else c # collapse_ws cs)"
  by pat_completeness auto
termination
  by (relation "measure length") (auto simp: less_Suc_eq_le length_dropWhile_le)

definition clean_text :: "string option \<Rightarrow> string" where
  "clean_text s = (case s of None \<Rightarrow> [] | Some t \<Rightarrow> py_strip (collapse_ws t))"

definition strip_key_chars :: "string \<Rightarrow> string" where
  \<comment> \<open>\<open>re.sub(r'[^a-z0-9\(\)\- ]', '', s)\<close>\<close>
  "strip_key_chars s = filter (\<lambda>c.
     (CHR ''a'' \<le> c \<and> c \<le> CHR ''z'') \<or> (CHR ''0'' \<le> c \<and> c \<le> CHR ''9'') \<or>
     c = CHR ''('' \<or> c = CHR '')'' \<or> c = CHR ''-'' \<or> c = CHR '' '') s"

section \<open>Product rows and deduplication\<close>

record row =
  category :: string
  brand :: string
  model :: string
  source_url :: string

type_synonym row_key = "string \<times> string"

definition local_key :: "row \<Rightarrow> row_key" where
  \<comment> \<open>\<open>(r['brand'].lower(), r['model'].lower())\<close>\<close>
  "local_key r = (py_lower (brand r), py_lower (model r))"

definition global_key :: "row \<Rightarrow> row_key" where
  \<comment> \<open>\<open>(r['brand'].strip().lower(),
       re.sub(r'[^a-z0-9\(\)\- ]', '', r['model'].strip().lower()))\<close>\<close>
  "global_key r =
     (py_lower (py_strip (brand r)), strip_key_chars (py_lower (py_strip (model r))))"

definition dedupe_step ::
  "(row \<Rightarrow> row_key) \<Rightarrow> row_key set \<times> row list \<Rightarrow> row \<Rightarrow> row_key set \<times> row list" where
  \<comment> \<open>one iteration of the loop over \<open>rows\<close>; the state is \<open>(seen, unique)\<close>.\<close>
  "dedupe_step key st r =
     (case st of (seen, unique) \<Rightarrow>
        if key r \<in> seen then (seen, unique)
        else (insert (key r) seen, unique @ [r]))"

definition dedupe :: "(row \<Rightarrow> row_key) \<Rightarrow> row list \<Rightarrow> row list" where
  "dedupe key rows = snd (foldl (dedupe_step key) ({}, []) rows)"

definition local_dedupe :: "row list \<Rightarrow> row list" where
  \<comment> \<open>the pass at the end of each of the four adapters\<close>
  "local_dedupe rows = dedupe local_key rows"

definition global_dedupe :: "row list \<Rightarrow> row list" where
  \<comment> \<open>the pass of \<open>run_all\<close>; the four \<open>r[k] = r.get(k, '')\<close> assignments leave a row
      that has all four fields as it is.\<close>
  "global_dedupe rows = dedupe global_key rows"

fun dedupe_from :: "(row \<Rightarrow> row_key) \<Rightarrow> row_key set \<Rightarrow> row list \<Rightarrow> row list" where
  \<comment> \<open>the rows the loop still appends when it starts with \<open>seen\<close>\<close>
  "dedupe_from key seen [] = []"
| "dedupe_from key seen (r # rs) =
     (if key r \<in> seen then dedupe_from key seen rs
      else r # dedupe_from key (insert (key r) seen) rs)"


section \<open>Pages and the network\<close>

text \<open>
  The HTML parser and the HTTP client are libraries. A parsed page is what the adapters
  read from it: its anchors that carry an \<open>href\<close>, in document order, and for every CSS
  selector the elements it matches, each with its text and the \<open>href\<close> of the nearest
  enclosing anchor if there is one. A request that raises (timeout, connection failure,
  \<open>raise_for_status\<close>) is \<^const>\<open>None\<close>. During one run a URL answers the same way
  every time it is requested.
\<close>

record element =
  el_text :: string
  el_parent_href :: "string option"

record anchor =
  a_href :: string
  a_text :: string

record page =
  anchors :: "anchor list"
  select :: "string \<Rightarrow> element list"

record driver =
  driver_get :: "string \<Rightarrow> page option"
  driver_quit_ok :: bool

record world =
  http_get :: "string \<Rightarrow> page option"
  urljoin :: "string \<Rightarrow> string \<Rightarrow> string"
  chrome :: "driver option"

datatype error = RequestError string | WebDriverError | KeyError string

section \<open>The MikroTik adapter\<close>

definition mikrotik_base :: string where
  "mikrotik_base = ''https://mikrotik.com''"

definition group_pages :: "string list" where
  "group_pages =
     [''https://mikrotik.com/products/group/ethernet-routers'',
      ''https://mikrotik.com/products/group/switches'',
      ''https://mikrotik.com/products/group/wireless-systems'',
      ''https://mikrotik.com/products/group/lte-5g'',
      ''https://mikrotik.com/products/group/60-ghz-products'',
      ''https://mikrotik.com/products/group/routerboard'']"

definition sel_candidates :: "string list" where
  "sel_candidates =
     [''.product-title'', ''.product-card__title'', ''h3'', ''h4'', ''.title'',
      ''.product-name'']"

definition card_selector :: string where
  "card_selector = ''.product, .product-card, .card, .catalog-item''"

definition mikrotik_links :: "world \<Rightarrow> page \<Rightarrow> string list" where
  \<comment> \<open>\<open>sorted(links)\<close>: the set of joined anchors and group pages, in code-point order\<close>
  "mikrotik_links w soup =
     sort (remdups
       ([urljoin w mikrotik_base (a_href a). a \<leftarrow> anchors soup,
           startswith (a_href a) ''/product'' \<or> startswith (a_href a) ''/products/group''
             \<or> startswith (a_href a) ''/products/'']
        @ group_pages))"

definition mikrotik_source :: "world \<Rightarrow> string \<Rightarrow> element \<Rightarrow> string" where
  "mikrotik_source w url el =
     (let source = (case el_parent_href el of Some h \<Rightarrow> h | None \<Rightarrow> url)
      in if source \<noteq> [] \<and> startswith source ''/'' then urljoin w mikrotik_base source
         else source)"

definition mikrotik_selector_rows :: "world \<Rightarrow> string \<Rightarrow> page \<Rightarrow> row list" where
  \<comment> \<open>the two nested iterations over \<open>sel_candidates\<close> and \<open>s.select(sel)\<close>\<close>
  "mikrotik_selector_rows w url s =
     [\<lparr>category = [], brand = ''MikroTik'', model = clean_text (Some (el_text el)),
        source_url = mikrotik_source w url el\<rparr>.
      sel \<leftarrow> sel_candidates, el \<leftarrow> select s sel,
      clean_text (Some (el_text el)) \<noteq> [] \<and> length (clean_text (Some (el_text el))) < 120]"

definition card_name :: "element \<Rightarrow> string" where
  \<comment> \<open>\<open>text = clean_text(card.get_text()); name = text.splitlines()[0] if text else ''\<close>\<close>
  "card_name el =
     (let text = clean_text (Some (el_text el))
      in if text \<noteq> [] then first_line text else [])"

definition mikrotik_card_rows :: "string \<Rightarrow> page \<Rightarrow> row list" where
  "mikrotik_card_rows url s =
     [\<lparr>category = [], brand = ''MikroTik'', model = card_name el, source_url = url\<rparr>.
      el \<leftarrow> select s card_selector,
      card_name el \<noteq> [] \<and> length (card_name el) < 120]"

definition mikrotik_page_rows :: "world \<Rightarrow> string \<Rightarrow> row list" where
  \<comment> \<open>the body of the loop over the candidate pages: a page whose request raises is
      skipped.\<close>
  "mikrotik_page_rows w url =
     (case http_get w url of
        None \<Rightarrow> []
      | Some s \<Rightarrow> mikrotik_selector_rows w url s @ mikrotik_card_rows url s)"

definition switch_keywords :: "string list" where
  "switch_keywords = [''switch'', ''crs'', ''switch'', ''sfp'', ''sg'']"

definition ap_keywords :: "string list" where
  "ap_keywords = [''hap'', ''wAP'', ''cap'', ''ap'', ''wireless'', ''nano'', ''sxt'', ''lbe'']"

definition ptp_keywords :: "string list" where
  "ptp_keywords = [''ptp'', ''ptmp'', ''backhaul'', ''c5'', ''b5'']"

definition classify :: "string \<Rightarrow> string" where
  \<comment> \<open>the keyword chain at the end of \<open>fetch_mikrotik\<close>\<close>
  "classify model_name =
     (let m = py_lower model_name
      in if list_ex (contains m) switch_keywords then ''switch''
         else if list_ex (contains m) ap_keywords then ''ap''
         else if list_ex (contains m) ptp_keywords then ''ptp''
         else ''router'')"

definition assign_category :: "row \<Rightarrow> row" where
  "assign_category r = r\<lparr>category := classify (model r)\<rparr>"

definition mikrotik_finish :: "row list \<Rightarrow> row list" where
  \<comment> \<open>adapter-local dedup, then the category guess on every surviving row\<close>
  "mikrotik_finish rows = map assign_category (local_dedupe rows)"

definition fetch_mikrotik :: "world \<Rightarrow> error + row list" where
  "fetch_mikrotik w =
     (let start = mikrotik_base @ ''/products''
      in case http_get w start of
           None \<Rightarrow> Inl (RequestError start)
         | Some soup \<Rightarrow>
             Inr (mikrotik_finish
                    (concat (map (mikrotik_page_rows w) (mikrotik_links w soup)))))"

section \<open>The Mimosa and Cambium adapters\<close>

definition product_link_rows :: "world \<Rightarrow> string \<Rightarrow> string \<Rightarrow> page \<Rightarrow> row list" where
  \<comment> \<open>the loop over \<open>select('a[href]')\<close> that \<open>fetch_mimosa\<close> runs on the listing and on
      every category page, and \<open>fetch_cambium\<close> on its start page\<close>
  "product_link_rows w base brand_name s =
     [\<lparr>category = ''ptp'', brand = brand_name, model = clean_text (Some (a_text a)),
        source_url = urljoin w base (a_href a)\<rparr>.
      a \<leftarrow> anchors s,
      startswith (a_href a) ''/products/'' \<and> 2 \<le> count_list (a_href a) CHR ''/'',
      clean_text (Some (a_text a)) \<noteq> []]"

definition mimosa_base :: string where
  "mimosa_base = ''https://mimosa.co''"

definition mimosa_categories :: "string list" where
  "mimosa_categories = [''accessories'', ''antennas'', ''backhaul'', ''access-points'', ''clients'']"

definition mimosa_category_rows :: "world \<Rightarrow> string \<Rightarrow> row list" where
  "mimosa_category_rows w cat =
     (case http_get w (mimosa_base @ ''/products/'' @ cat) of
        None \<Rightarrow> []
      | Some ss \<Rightarrow> product_link_rows w mimosa_base ''Mimosa'' ss)"

definition fetch_mimosa :: "world \<Rightarrow> error + row list" where
  "fetch_mimosa w =
     (let start = mimosa_base @ ''/products''
      in case http_get w start of
           None \<Rightarrow> Inl (RequestError start)
         | Some s \<Rightarrow>
             Inr (local_dedupe
                    (product_link_rows w mimosa_base ''Mimosa'' s
                     @ concat (map (mimosa_category_rows w) mimosa_categories))))"

definition cambium_base :: string where
  "cambium_base = ''https://www.cambiumnetworks.com''"

definition finder_selector :: string where
  "finder_selector = ''.product-listing, .pf-result, .product-card, .product''"

definition cambium_finder_rows :: "world \<Rightarrow> row list" where
  \<comment> \<open>the product-finder block; a failed request contributes nothing\<close>
  "cambium_finder_rows w =
     (let pf = cambium_base @ ''/product-finder/''
      in case http_get w pf of
           None \<Rightarrow> []
         | Some s2 \<Rightarrow>
             [\<lparr>category = ''ptp'', brand = ''Cambium'',
                model = first_line (clean_text (Some (el_text el))), source_url = pf\<rparr>.
              el \<leftarrow> select s2 finder_selector, clean_text (Some (el_text el)) \<noteq> []])"

definition fetch_cambium :: "world \<Rightarrow> error + row list" where
  "fetch_cambium w =
     (let start = cambium_base @ ''/products/''
      in case http_get w start of
           None \<Rightarrow> Inl (RequestError start)
         | Some s \<Rightarrow>
             Inr (local_dedupe
                    (product_link_rows w cambium_base ''Cambium'' s @ cambium_finder_rows w)))"

section \<open>The Ubiquiti adapter\<close>

definition ubiquiti_urls :: "string list" where
  \<comment> \<open>\<open>candidates + base_candidates\<close>\<close>
  "ubiquiti_urls =
     [''https://www.ui.com/unifi/'', ''https://www.ui.com/edge/'',
      ''https://store.ui.com/collections/all'', ''https://store.ui.com/collections/unifi'',
      ''https://store.ui.com/collections/ubiquiti'', ''https://www.ui.com/collections/unifi'']"

definition ubiquiti_selectors :: "string list" where
  "ubiquiti_selectors =
     [''.product-card__title'', ''.product-title'', ''h2'', ''h3'', ''.product-title a'',
      ''.card-title'']"

definition ubiquiti_get :: "world \<Rightarrow> bool \<Rightarrow> driver option \<Rightarrow> string \<Rightarrow> page option" where
  \<comment> \<open>the rendered page through the driver when both are given, a plain request
      otherwise\<close>
  "ubiquiti_get w use_selenium drv url =
     (case drv of
        Some d \<Rightarrow> if use_selenium then driver_get d url else http_get w url
      | None \<Rightarrow> http_get w url)"

definition ubiquiti_selector_rows :: "string \<Rightarrow> page \<Rightarrow> row list" where
  "ubiquiti_selector_rows url s =
     [\<lparr>category = ''ap'', brand = ''Ubiquiti'', model = clean_text (Some (el_text el)),
        source_url = url\<rparr>.
      sel \<leftarrow> ubiquiti_selectors, el \<leftarrow> select s sel,
      clean_text (Some (el_text el)) \<noteq> [] \<and> length (clean_text (Some (el_text el))) < 200]"

definition ubiquiti_anchor_rows :: "world \<Rightarrow> string \<Rightarrow> page \<Rightarrow> row list" where
  "ubiquiti_anchor_rows w url s =
     [\<lparr>category = ''ap'', brand = ''Ubiquiti'', model = clean_text (Some (a_text a)),
        source_url = urljoin w url (a_href a)\<rparr>.
      a \<leftarrow> anchors s,
      contains (py_lower (a_href a)) ''unifi'' \<or> contains (py_lower (a_href a)) ''airmax''
        \<or> contains (py_lower (a_href a)) ''edge'' \<or> contains (a_href a) ''/product'',
      clean_text (Some (a_text a)) \<noteq> []]"

definition ubiquiti_page_rows :: "world \<Rightarrow> bool \<Rightarrow> driver option \<Rightarrow> string \<Rightarrow> row list" where
  "ubiquiti_page_rows w use_selenium drv url =
     (case ubiquiti_get w use_selenium drv url of
        None \<Rightarrow> []
      | Some s \<Rightarrow> ubiquiti_selector_rows url s @ ubiquiti_anchor_rows w url s)"

definition ubiquiti_step ::
  "world \<Rightarrow> bool \<Rightarrow> driver option \<Rightarrow> string set \<times> row list \<Rightarrow> string
     \<Rightarrow> string set \<times> row list" where
  \<comment> \<open>one iteration of the loop over the URLs; the state is \<open>(tried, rows)\<close>.\<close>
  "ubiquiti_step w use_selenium drv st url =
     (case st of (tried, rows) \<Rightarrow>
        if url \<in> tried then (tried, rows)
        else (insert url tried, rows @ ubiquiti_page_rows w use_selenium drv url))"

definition fetch_ubiquiti :: "world \<Rightarrow> bool \<Rightarrow> driver option \<Rightarrow> row list" where
  "fetch_ubiquiti w use_selenium drv =
     local_dedupe (snd (foldl (ubiquiti_step w use_selenium drv) ({}, []) ubiquiti_urls))"

section \<open>Export\<close>

definition keys :: "string list" where
  "keys = [''category'', ''brand'', ''model'', ''source_url'']"

definition row_values :: "row \<Rightarrow> string list" where
  \<comment> \<open>\<open>{k: r.get(k, '') for k in keys}\<close>, in the order of \<open>keys\<close>\<close>
  "row_values r = [category r, brand r, model r, source_url r]"

text \<open>
  \<open>csv.DictWriter(f, keys)\<close> writes with the \<open>excel\<close> dialect: delimiter comma, quote
  character \<open>"\<close>, \<open>QUOTE_MINIMAL\<close>, doubled quotes, line terminator CR LF. A field is
  quoted exactly when it holds a comma, a quote, a CR or an LF. The file is opened
  with \<open>newline=''\<close>, so what is written is what the file holds.
\<close>

definition CR :: char where
  "CR = CHR 0x0D"

definition LF :: char where
  "LF = CHR 0x0A"

definition special :: "char \<Rightarrow> bool" where
  "special c = (c = CHR '','' \<or> c = CHR 0x22 \<or> c = CR \<or> c = LF)"

definition double_quotes :: "string \<Rightarrow> string" where
  "double_quotes f = concat (map (\<lambda>c. if c = CHR 0x22 then [c, c] else [c]) f)"

definition csv_field :: "string \<Rightarrow> string" where
  "csv_field f =
     (if list_ex special f then CHR 0x22 # double_quotes f @ [CHR 0x22] else f)"

fun join_fields :: "string list \<Rightarrow> string" where
  "join_fields [] = []"
| "join_fields [f] = f"
| "join_fields (f # g # fs) = f @ CHR '','' # join_fields (g # fs)"

definition writerow :: "string list \<Rightarrow> string" where
  \<comment> \<open>a record of at least two fields (a lone empty field would be quoted)\<close>
  "writerow fs = join_fields (map csv_field fs) @ [CR, LF]"

definition save_to_csv :: "row list \<Rightarrow> string" where
  \<comment> \<open>the text of the file: the header, then one record per row\<close>
  "save_to_csv rows = concat (map writerow (keys # map row_values rows))"

definition brand_groups :: "row list \<Rightarrow> error + (string \<times> row list) list" where
  \<comment> \<open>\<open>pd.DataFrame(unique).groupby('brand')\<close>: a frame built from an empty list has
      no columns, and grouping by a missing column raises \<open>KeyError\<close>; otherwise one
      group per brand, in the order of the sorted brands, rows in their order.\<close>
  "brand_groups rows =
     (if rows = [] then Inl (KeyError ''brand'')
      else Inr [(b, filter (\<lambda>r. brand r = b) rows). b \<leftarrow> sort (remdups (map brand rows))])"

section \<open>The runner\<close>

definition contribution :: "error + row list \<Rightarrow> row list" where
  \<comment> \<open>\<open>try: rows_all.extend(fetch()) except Exception: print(...)\<close>\<close>
  "contribution res = (case res of Inl e \<Rightarrow> [] | Inr rows \<Rightarrow> rows)"

definition ubiquiti_run :: "world \<Rightarrow> bool \<Rightarrow> bool \<Rightarrow> error + row list" where
  \<comment> \<open>the body of the Ubiquiti \<open>try\<close>: starting or quitting the browser may raise\<close>
  "ubiquiti_run w use_selenium selenium_ok =
     (if use_selenium \<and> selenium_ok then
        (case chrome w of
           None \<Rightarrow> Inl WebDriverError
         | Some d \<Rightarrow>
             (let ub = fetch_ubiquiti w True (Some d)
              in if driver_quit_ok d then Inr ub else Inl WebDriverError))
      else Inr (fetch_ubiquiti w False None))"

definition rows_all :: "world \<Rightarrow> bool \<Rightarrow> bool \<Rightarrow> row list" where
  "rows_all w use_selenium selenium_ok =
     contribution (fetch_mikrotik w) @ contribution (ubiquiti_run w use_selenium selenium_ok)
     @ contribution (fetch_cambium w) @ contribution (fetch_mimosa w)"

record export =
  main_csv :: string
  brand_csvs :: "(string \<times> row list) list"

definition run_all :: "world \<Rightarrow> bool \<Rightarrow> bool \<Rightarrow> error + export" where
  "run_all w use_selenium selenium_ok =
     (let unique = global_dedupe (rows_all w use_selenium selenium_ok);
          csv = save_to_csv unique
      in case brand_groups unique of
           Inl e \<Rightarrow> Inl e
         | Inr groups \<Rightarrow> Inr \<lparr>main_csv = csv, brand_csvs = groups\<rparr>)"

datatype outcome = ExitAtStartup | Raised error | Finished export

definition main :: "bool \<Rightarrow> bool \<Rightarrow> world \<Rightarrow> outcome" where
  \<comment> \<open>the \<open>__main__\<close> block; \<open>selenium_ok\<close> is the module constant \<open>SELENIUM_OK\<close>.\<close>
  "main use_selenium selenium_ok w =
     (if use_selenium \<and> \<not> selenium_ok then ExitAtStartup
      else case run_all w use_selenium selenium_ok of
             Inl e \<Rightarrow> Raised e
           | Inr ex \<Rightarrow> Finished ex)"

fun exit_status :: "outcome \<Rightarrow> nat" where
  \<comment> \<open>\<open>sys.exit(1)\<close>; an uncaught exception ends the interpreter with status 1\<close>
  "exit_status ExitAtStartup = 1"
| "exit_status (Raised e) = 1"
| "exit_status (Finished ex) = 0"

section \<open>The deduplication key in the words of the specification\<close>




definition labels :: "string set" where
  "labels = {''router'', ''switch'', ''ap'', ''ptp''}"

section \<open>Concrete inputs\<close>

definition near_duplicates :: "row list" where
  \<comment> \<open>three rows: the second differs from the first in case and in a stripped
      character (superscript two, U+00B2) only\<close>
  "near_duplicates =
     [\<lparr>category = ''ap'', brand = ''MikroTik'', model = ''hAP ac'' @ [CHR 0xB2],
        source_url = ''https://mikrotik.com/product/hap_ac2''\<rparr>,
      \<lparr>category = ''ap'', brand = ''MikroTik'', model = ''HAP AC'',
        source_url = ''https://mikrotik.com/products/group/wireless-systems''\<rparr>,
      \<lparr>category = ''ptp'', brand = ''Mimosa'', model = ''hAP ac'',
        source_url = ''https://mimosa.co/products/hap''\<rparr>]"

definition empty_page :: page where
  "empty_page = \<lparr>anchors = [], select = (\<lambda>sel. [])\<rparr>"

definition crs_page :: page where
  \<comment> \<open>a page whose two \<open>.product-title\<close> elements sit in anchors to
      \<open>/product/crs326\<close> and \<open>/product/crs326-dup\<close>\<close>
  "crs_page =
     \<lparr>anchors = [],
      select = (\<lambda>sel. if sel = ''.product-title''
                 then [\<lparr>el_text = ''CRS326'', el_parent_href = Some ''/product/crs326''\<rparr>,
                       \<lparr>el_text = ''crs326'', el_parent_href = Some ''/product/crs326-dup''\<rparr>]
                 else [])\<rparr>"

definition switches_url :: string where
  "switches_url = ''https://mikrotik.com/products/group/switches''"

definition switches_world :: world where
  \<comment> \<open>the MikroTik start page and the switches page answer, every other request
      raises; \<open>urljoin\<close> of an absolute path onto a bare host appends it\<close>
  "switches_world =
     \<lparr>http_get = (\<lambda>url. if url = ''https://mikrotik.com/products'' then Some empty_page
                     else if url = switches_url then Some crs_page
                     else None),
      urljoin = (\<lambda>base href. base @ href),
      chrome = None\<rparr>"

definition offline :: world where
  \<comment> \<open>every request raises\<close>
  "offline = \<lparr>http_get = (\<lambda>url. None), urljoin = (\<lambda>base href. base @ href), chrome = None\<rparr>"

definition vendor_world :: world where
  \<comment> \<open>one answering page per vendor: the MikroTik start and switches pages, the first
      Ubiquiti page with one \<open>h2\<close>, and one product link on the Cambium and the Mimosa
      start page; every other request raises\<close>
  "vendor_world =
     \<lparr>http_get = (\<lambda>url.
        if url = ''https://mikrotik.com/products'' then Some empty_page
        else if url = switches_url then Some crs_page
        else if url = ''https://www.ui.com/unifi/'' then
          Some \<lparr>anchors = [],
                select = (\<lambda>sel. if sel = ''h2''
                           then [\<lparr>el_text = ''UniFi 6 Lite'', el_parent_href = None\<rparr>]
                           else [])\<rparr>
        else if url = ''https://www.cambiumnetworks.com/products/'' then
          Some \<lparr>anchors = [\<lparr>a_href = ''/products/ptp-550/'', a_text = ''PTP 550''\<rparr>],
                select = (\<lambda>sel. [])\<rparr>
        else if url = ''https://mimosa.co/products'' then
          Some \<lparr>anchors = [\<lparr>a_href = ''/products/b5'', a_text = ''B5''\<rparr>],
                select = (\<lambda>sel. [])\<rparr>
        else None),
      urljoin = (\<lambda>base href. base @ href),
      chrome = None\<rparr>"

definition vendor_rows :: "row list" where
  "vendor_rows =
     [\<lparr>category = ''switch'', brand = ''MikroTik'', model = ''CRS326'',
        source_url = ''https://mikrotik.com/product/crs326''\<rparr>,
      \<lparr>category = ''ap'', brand = ''Ubiquiti'', model = ''UniFi 6 Lite'',
        source_url = ''https://www.ui.com/unifi/''\<rparr>,
      \<lparr>category = ''ptp'', brand = ''Cambium'', model = ''PTP 550'',
        source_url = ''https://www.cambiumnetworks.com/products/ptp-550/''\<rparr>,
      \<lparr>category = ''ptp'', brand = ''Mimosa'', model = ''B5'',
        source_url = ''https://mimosa.co/products/b5''\<rparr>]"






definition card_page :: page where
  \<comment> \<open>a page on which the selector \<open>h3\<close> matches a title and the card selector
      matches a container whose text has two lines\<close>
  "card_page =
     \<lparr>anchors = [],
      select = (\<lambda>sel. if sel = ''h3'' then [\<lparr>el_text = ''RB5009'', el_parent_href = None\<rparr>]
                 else if sel = card_selector
                   then [\<lparr>el_text = ''hEX S'' @ [LF] @ ''5x Gigabit Ethernet'',
                          el_parent_href = None\<rparr>]
                 else [])\<rparr>"

definition card_world :: world where
  \<comment> \<open>the switches page answers with \<^const>\<open>card_page\<close>\<close>
  "card_world =
     \<lparr>http_get = (\<lambda>url. if url = switches_url then Some card_page else None),
      urljoin = (\<lambda>base href. base @ href),
      chrome = None\<rparr>"

section \<open>Reading the exported file back\<close>

text \<open>
  The reader is \<open>csv.reader\<close> over the file opened with \<open>newline=''\<close>, with the dialect
  the writer used (\<open>excel\<close>: not strict, no escape character, initial spaces kept). The
  file yields lines that end at LF, at CR, or at CR LF, terminator included; the reader
  feeds each line character by character into its state machine, then an end-of-line
  mark (\<^const>\<open>None\<close> below), and returns a record once a line ends in the start
  state. The reader's configurable field size limit and the rejection of NUL characters
  by interpreters before 3.11 are left out.
\<close>

fun readlines :: "string \<Rightarrow> string \<Rightarrow> string list" where
  \<comment> \<open>the lines of the rest of the file; \<open>cur\<close> is the line read so far\<close>
  "readlines cur [] = (if cur = [] then [] else [cur])"
| "readlines cur [c] = [cur @ [c]]"
| "readlines cur (c # d # cs) =
     (if c = LF \<or> (c = CR \<and> d \<noteq> LF) then (cur @ [c]) # readlines [] (d # cs)
      else if c = CR then (cur @ [c, d]) # readlines [] cs
      else readlines (cur @ [c]) (d # cs))"

datatype parser_state =
  START_RECORD | START_FIELD | IN_FIELD | IN_QUOTED_FIELD | QUOTE_IN_QUOTED_FIELD | EAT_CRNL

record reader =
  rd_state :: parser_state
  rd_field :: string
  rd_fields :: "string list"

definition parse_reset :: reader where
  "parse_reset = \<lparr>rd_state = START_RECORD, rd_field = [], rd_fields = []\<rparr>"

definition parse_save_field :: "reader \<Rightarrow> reader" where
  "parse_save_field rd = rd\<lparr>rd_fields := rd_fields rd @ [rd_field rd], rd_field := []\<rparr>"

definition parse_add_char :: "reader \<Rightarrow> char \<Rightarrow> reader" where
  "parse_add_char rd c = rd\<lparr>rd_field := rd_field rd @ [c]\<rparr>"

definition start_field :: "reader \<Rightarrow> char option \<Rightarrow> reader option" where
  \<comment> \<open>the case \<open>START_FIELD\<close>, which \<open>START_RECORD\<close> falls through to\<close>
  "start_field rd c =
     (case c of
        None \<Rightarrow> Some ((parse_save_field rd)\<lparr>rd_state := START_RECORD\<rparr>)
      | Some ch \<Rightarrow>
          if ch = LF \<or> ch = CR then Some ((parse_save_field rd)\<lparr>rd_state := EAT_CRNL\<rparr>)
          else if ch = CHR 0x22 then Some (rd\<lparr>rd_state := IN_QUOTED_FIELD\<rparr>)
          else if ch = CHR '','' then Some ((parse_save_field rd)\<lparr>rd_state := START_FIELD\<rparr>)
          else Some ((parse_add_char rd ch)\<lparr>rd_state := IN_FIELD\<rparr>))"

definition parse_process_char :: "reader \<Rightarrow> char option \<Rightarrow> reader option" where
  \<comment> \<open>one step of the state machine; \<^const>\<open>None\<close> as a result is \<open>csv.Error\<close>\<close>
  "parse_process_char rd c =
     (case rd_state rd of
        START_RECORD \<Rightarrow>
          (case c of
             None \<Rightarrow> Some rd
           | Some ch \<Rightarrow>
               if ch = LF \<or> ch = CR then Some (rd\<lparr>rd_state := EAT_CRNL\<rparr>)
               else start_field (rd\<lparr>rd_state := START_FIELD\<rparr>) c)
      | START_FIELD \<Rightarrow> start_field rd c
      | IN_FIELD \<Rightarrow>
          (case c of
             None \<Rightarrow> Some ((parse_save_field rd)\<lparr>rd_state := START_RECORD\<rparr>)
           | Some ch \<Rightarrow>
               if ch = LF \<or> ch = CR then Some ((parse_save_field rd)\<lparr>rd_state := EAT_CRNL\<rparr>)
               else if ch = CHR '','' then Some ((parse_save_field rd)\<lparr>rd_state := START_FIELD\<rparr>)
               else Some (parse_add_char rd ch))
      | IN_QUOTED_FIELD \<Rightarrow>
          (case c of
             None \<Rightarrow> Some rd
           | Some ch \<Rightarrow>
               if ch = CHR 0x22 then Some (rd\<lparr>rd_state := QUOTE_IN_QUOTED_FIELD\<rparr>)
               else Some (parse_add_char rd ch))
      | QUOTE_IN_QUOTED_FIELD \<Rightarrow>
          (case c of
             None \<Rightarrow> Some ((parse_save_field rd)\<lparr>rd_state := START_RECORD\<rparr>)
           | Some ch \<Rightarrow>
               if ch = CHR 0x22 then Some ((parse_add_char rd ch)\<lparr>rd_state := IN_QUOTED_FIELD\<rparr>)
               else if ch = CHR '','' then Some ((parse_save_field rd)\<lparr>rd_state := START_FIELD\<rparr>)
               else if ch = LF \<or> ch = CR then Some ((parse_save_field rd)\<lparr>rd_state := EAT_CRNL\<rparr>)
               else Some ((parse_add_char rd ch)\<lparr>rd_state := IN_FIELD\<rparr>))
      | EAT_CRNL \<Rightarrow>
          (case c of
             None \<Rightarrow> Some (rd\<lparr>rd_state := START_RECORD\<rparr>)
           | Some ch \<Rightarrow> if ch = LF \<or> ch = CR then Some rd else None))"

fun feed_chars :: "reader \<Rightarrow> string \<Rightarrow> reader option" where
  \<comment> \<open>the loop over the characters of a line; an error ends it\<close>
  "feed_chars rd [] = Some rd"
| "feed_chars rd (c # cs) =
     (case parse_process_char rd (Some c) of None \<Rightarrow> None | Some rd' \<Rightarrow> feed_chars rd' cs)"

definition feed_line :: "reader \<Rightarrow> string \<Rightarrow> reader option" where
  \<comment> \<open>the characters of one line, then the end-of-line mark\<close>
  "feed_line rd l =
     (case feed_chars rd l of None \<Rightarrow> None | Some rd' \<Rightarrow> parse_process_char rd' None)"

fun read_lines :: "reader \<Rightarrow> string list \<Rightarrow> string list list option" where
  \<comment> \<open>\<open>list(csv.reader(lines))\<close>: a record is complete when a line ends in
      \<open>START_RECORD\<close>, and the next one starts from the reset reader; at the end of the
      input a pending field or an open quoted field still makes a record.\<close>
  "read_lines rd [] =
     (if rd_field rd \<noteq> [] \<or> rd_state rd = IN_QUOTED_FIELD then Some [rd_fields (parse_save_field rd)]
      else Some [])"
| "read_lines rd (l # ls) =
     (case feed_line rd l of
        None \<Rightarrow> None
      | Some rd' \<Rightarrow>
          if rd_state rd' = START_RECORD
          then map_option (Cons (rd_fields rd')) (read_lines parse_reset ls)
          else read_lines rd' ls)"

definition parse_csv :: "string \<Rightarrow> string list list option" where
  "parse_csv text = read_lines parse_reset (readlines [] text)"


definition tricky_rows :: "row list" where
  \<comment> \<open>fields with a comma, a doubled quote, a CR LF pair, a lone CR and an empty field\<close>
  "tricky_rows =
     [\<lparr>category = ''ap'', brand = ''Ubiquiti'', model = ''U6, Lite'',
        source_url = ''https://ui.com/a?x='' @ [CHR 0x22, CHR 0x22] @ ''b''\<rparr>,
      \<lparr>category = [], brand = ''Cambium'', model = ''PTP'' @ [CR, LF] @ ''550'',
        source_url = [CR]\<rparr>]"

named_theorems py_eval \<open>equations that evaluate the string functions on literals\<close>

lemmas [py_eval] =
  isspace_def is_linebreak_def is_upper_def lower_char_def py_lower_def py_strip_def
  startswith_def first_line_def clean_text_def strip_key_chars_def char_of_def bit_0
  less_eq_char_def

section \<open>Properties of deduplication\<close>

lemma foldl_dedupe_step:
  "foldl (dedupe_step key) (seen, unique) rows =
     (seen \<union> key ` set rows, unique @ dedupe_from key seen rows)"
  by (induction rows arbitrary: seen unique) (auto simp: dedupe_step_def)

lemma dedupe_eq_from: "dedupe key rows = dedupe_from key {} rows"
  by (simp add: dedupe_def foldl_dedupe_step)

lemma dedupe_from_idem:
  "dedupe_from key S (dedupe_from key S rows) = dedupe_from key S rows"
  by (induction rows arbitrary: S) auto

lemma dedupe_from_subset: "set (dedupe_from key S rows) \<subseteq> set rows"
  by (induction rows arbitrary: S) auto

lemma dedupe_subset: "set (dedupe key rows) \<subseteq> set rows"
  by (simp add: dedupe_eq_from dedupe_from_subset)





text \<open>
  Claim C9. Deduplication is idempotent: for every row sequence \<open>R\<close>, running the pass on
  its own output returns that output unchanged, with the adapter-local key as well as with
  the stripped key of the global pass.
\<close>

theorem dedupe_idempotent:
  "local_dedupe (local_dedupe R) = local_dedupe R \<and>
   global_dedupe (global_dedupe R) = global_dedupe R"
  by (simp add: local_dedupe_def global_dedupe_def dedupe_eq_from dedupe_from_idem)

lemma linebreak_isspace: "is_linebreak c \<Longrightarrow> isspace c"
  by (auto simp: is_linebreak_def isspace_def Let_def)

lemma space_not_linebreak: "\<not> is_linebreak CHR '' ''"
  by (simp add: is_linebreak_def)

lemma collapse_ws_chars: "c \<in> set (collapse_ws s) \<Longrightarrow> \<not> isspace c \<or> c = CHR '' ''"
proof (induction s rule: collapse_ws.induct)
  case 1
  then show ?case by simp
next
  case (2 d ds)
  then show ?case by (auto split: if_splits)
qed

lemma set_py_strip: "set (py_strip s) \<subseteq> set s"
proof -
  have "set (py_strip s) \<subseteq> set (dropWhile isspace s)"
    unfolding py_strip_def using set_dropWhileD [of _ isspace "rev (dropWhile isspace s)"]
    by auto
  also have "\<dots> \<subseteq> set s" using set_dropWhileD by fastforce
  finally show ?thesis .
qed

lemma clean_text_no_linebreak: "c \<in> set (clean_text s) \<Longrightarrow> \<not> is_linebreak c"
proof (cases s)
  case None
  then show "c \<in> set (clean_text s) \<Longrightarrow> \<not> is_linebreak c" by (simp add: clean_text_def)
next
  case (Some t)
  assume "c \<in> set (clean_text s)"
  then have "c \<in> set (collapse_ws t)"
    using Some set_py_strip by (auto simp: clean_text_def)
  then have "\<not> isspace c \<or> c = CHR '' ''" by (rule collapse_ws_chars)
  then show "\<not> is_linebreak c"
    using linebreak_isspace space_not_linebreak by auto
qed

lemma first_line_clean_text: "first_line (clean_text s) = clean_text s"
  unfolding first_line_def by (simp add: takeWhile_eq_all_conv clean_text_no_linebreak)









section \<open>What every adapter returns\<close>


lemma card_name_clean: "card_name el = clean_text (Some (el_text el))"
  by (simp add: card_name_def Let_def first_line_clean_text)

lemma classify_label: "classify m \<in> labels"
  by (simp add: classify_def labels_def Let_def)

lemma local_dedupe_subset: "set (local_dedupe rows) \<subseteq> set rows"
  by (simp add: local_dedupe_def dedupe_subset)

lemma global_dedupe_subset: "set (global_dedupe rows) \<subseteq> set rows"
  by (simp add: global_dedupe_def dedupe_subset)

lemma mikrotik_page_rows_shape:
  "r \<in> set (mikrotik_page_rows w url) \<Longrightarrow>
     brand r = ''MikroTik'' \<and> (\<exists>t. model r = clean_text (Some t)) \<and> model r \<noteq> []"
  by (auto simp: mikrotik_page_rows_def mikrotik_selector_rows_def mikrotik_card_rows_def
        card_name_clean split: option.splits)

lemma fetch_mikrotik_shape:
  assumes "r \<in> set (contribution (fetch_mikrotik w))"
  shows "category r \<in> labels \<and> brand r = ''MikroTik''
           \<and> (\<exists>t. model r = clean_text (Some t)) \<and> model r \<noteq> []"
proof (cases "http_get w (mikrotik_base @ ''/products'')")
  case None
  with assms show ?thesis by (simp add: fetch_mikrotik_def contribution_def)
next
  case (Some soup)
  let ?raw = "concat (map (mikrotik_page_rows w) (mikrotik_links w soup))"
  from assms Some obtain r0 where r0: "r0 \<in> set (local_dedupe ?raw)" and r: "r = assign_category r0"
    by (auto simp: fetch_mikrotik_def contribution_def mikrotik_finish_def)
  from r0 have "r0 \<in> set ?raw" using local_dedupe_subset by blast
  then obtain url where "r0 \<in> set (mikrotik_page_rows w url)" by auto
  then have "brand r0 = ''MikroTik'' \<and> (\<exists>t. model r0 = clean_text (Some t)) \<and> model r0 \<noteq> []"
    by (rule mikrotik_page_rows_shape)
  with r show ?thesis by (simp add: assign_category_def classify_label)
qed

lemma product_link_rows_shape:
  "r \<in> set (product_link_rows w base b s) \<Longrightarrow>
     category r = ''ptp'' \<and> brand r = b \<and> (\<exists>t. model r = clean_text (Some t)) \<and> model r \<noteq> []"
  by (auto simp: product_link_rows_def)

lemma fetch_mimosa_shape:
  assumes "r \<in> set (contribution (fetch_mimosa w))"
  shows "category r = ''ptp'' \<and> brand r = ''Mimosa''
           \<and> (\<exists>t. model r = clean_text (Some t)) \<and> model r \<noteq> []"
proof (cases "http_get w (mimosa_base @ ''/products'')")
  case None
  with assms show ?thesis by (simp add: fetch_mimosa_def contribution_def)
next
  case (Some s)
  let ?raw = "product_link_rows w mimosa_base ''Mimosa'' s
                @ concat (map (mimosa_category_rows w) mimosa_categories)"
  from assms Some have "r \<in> set (local_dedupe ?raw)"
    by (simp add: fetch_mimosa_def contribution_def)
  then have "r \<in> set ?raw" using local_dedupe_subset by blast
  then obtain pg where "r \<in> set (product_link_rows w mimosa_base ''Mimosa'' pg)"
    by (auto simp: mimosa_category_rows_def split: option.splits)
  then show ?thesis by (rule product_link_rows_shape)
qed

lemma cambium_finder_rows_shape:
  "r \<in> set (cambium_finder_rows w) \<Longrightarrow>
     category r = ''ptp'' \<and> brand r = ''Cambium''
       \<and> (\<exists>t. model r = clean_text (Some t)) \<and> model r \<noteq> []"
  by (auto simp: cambium_finder_rows_def Let_def first_line_clean_text split: option.splits)

lemma fetch_cambium_shape:
  assumes "r \<in> set (contribution (fetch_cambium w))"
  shows "category r = ''ptp'' \<and> brand r = ''Cambium''
           \<and> (\<exists>t. model r = clean_text (Some t)) \<and> model r \<noteq> []"
proof (cases "http_get w (cambium_base @ ''/products/'')")
  case None
  with assms show ?thesis by (simp add: fetch_cambium_def contribution_def)
next
  case (Some s)
  let ?raw = "product_link_rows w cambium_base ''Cambium'' s @ cambium_finder_rows w"
  from assms Some have "r \<in> set (local_dedupe ?raw)"
    by (simp add: fetch_cambium_def contribution_def)
  then have "r \<in> set ?raw" using local_dedupe_subset by blast
  then show ?thesis
    using product_link_rows_shape cambium_finder_rows_shape by auto
qed

lemma ubiquiti_page_rows_shape:
  "r \<in> set (ubiquiti_page_rows w u drv url) \<Longrightarrow>
     category r = ''ap'' \<and> brand r = ''Ubiquiti''
       \<and> (\<exists>t. model r = clean_text (Some t)) \<and> model r \<noteq> []"
  by (auto simp: ubiquiti_page_rows_def ubiquiti_selector_rows_def ubiquiti_anchor_rows_def
        split: option.splits)

lemma foldl_ubiquiti_step:
  "set (snd (foldl (ubiquiti_step w u drv) (tried, rows) urls))
     \<subseteq> set rows \<union> (\<Union>url \<in> set urls. set (ubiquiti_page_rows w u drv url))"
proof (induction urls arbitrary: tried rows)
  case Nil
  show ?case by simp
next
  case (Cons url urls)
  show ?case
  proof (cases "url \<in> tried")
    case True
    then show ?thesis using Cons.IH [of tried rows] by (auto simp: ubiquiti_step_def)
  next
    case False
    then show ?thesis
      using Cons.IH [of "insert url tried" "rows @ ubiquiti_page_rows w u drv url"]
      by (auto simp: ubiquiti_step_def)
  qed
qed

lemma fetch_ubiquiti_shape:
  assumes "r \<in> set (fetch_ubiquiti w u drv)"
  shows "category r = ''ap'' \<and> brand r = ''Ubiquiti''
           \<and> (\<exists>t. model r = clean_text (Some t)) \<and> model r \<noteq> []"
proof -
  from assms have "r \<in> set (snd (foldl (ubiquiti_step w u drv) ({}, []) ubiquiti_urls))"
    unfolding fetch_ubiquiti_def using local_dedupe_subset by blast
  then obtain url where "r \<in> set (ubiquiti_page_rows w u drv url)"
    using foldl_ubiquiti_step [of w u drv "{}" "[]" ubiquiti_urls] by auto
  then show ?thesis by (rule ubiquiti_page_rows_shape)
qed

lemma ubiquiti_run_shape:
  assumes "r \<in> set (contribution (ubiquiti_run w u ok))"
  shows "category r = ''ap'' \<and> brand r = ''Ubiquiti''
           \<and> (\<exists>t. model r = clean_text (Some t)) \<and> model r \<noteq> []"
  using assms fetch_ubiquiti_shape
  by (auto simp: ubiquiti_run_def contribution_def Let_def split: if_splits option.splits)

lemma rows_all_shape:
  assumes "r \<in> set (rows_all w u ok)"
  shows "category r \<in> labels \<and> brand r \<in> {''MikroTik'', ''Ubiquiti'', ''Cambium'', ''Mimosa''}
           \<and> (\<exists>t. model r = clean_text (Some t)) \<and> model r \<noteq> []"
proof -
  from assms consider
      "r \<in> set (contribution (fetch_mikrotik w))"
    | "r \<in> set (contribution (ubiquiti_run w u ok))"
    | "r \<in> set (contribution (fetch_cambium w))"
    | "r \<in> set (contribution (fetch_mimosa w))"
    by (auto simp: rows_all_def)
  then show ?thesis
  proof cases
    case 1
    from fetch_mikrotik_shape [OF 1] show ?thesis by simp
  next
    case 2
    from ubiquiti_run_shape [OF 2] show ?thesis by (simp add: labels_def)
  next
    case 3
    from fetch_cambium_shape [OF 3] show ?thesis by (simp add: labels_def)
  next
    case 4
    from fetch_mimosa_shape [OF 4] show ?thesis by (simp add: labels_def)
  qed
qed


lemma sorted_group_pages:
  "sort (remdups group_pages) =
     [''https://mikrotik.com/products/group/60-ghz-products'',
      ''https://mikrotik.com/products/group/ethernet-routers'',
      ''https://mikrotik.com/products/group/lte-5g'',
      ''https://mikrotik.com/products/group/routerboard'',
      ''https://mikrotik.com/products/group/switches'',
      ''https://mikrotik.com/products/group/wireless-systems'']"
  by (simp add: group_pages_def less_eq_char_def less_char_def)

lemma crs_selector_rows:
  "mikrotik_selector_rows w url crs_page =
     [\<lparr>category = [], brand = ''MikroTik'', model = ''CRS326'',
        source_url = urljoin w mikrotik_base ''/product/crs326''\<rparr>,
      \<lparr>category = [], brand = ''MikroTik'', model = ''crs326'',
        source_url = urljoin w mikrotik_base ''/product/crs326-dup''\<rparr>]"
  by (simp add: mikrotik_selector_rows_def sel_candidates_def crs_page_def mikrotik_source_def
        clean_text_def py_strip_def isspace_def startswith_def)

lemma crs_card_rows: "mikrotik_card_rows url crs_page = []"
  by (simp add: mikrotik_card_rows_def card_selector_def crs_page_def)

lemma crs_finish:
  "mikrotik_finish
     [\<lparr>category = [], brand = ''MikroTik'', model = ''CRS326'', source_url = u1\<rparr>,
      \<lparr>category = [], brand = ''MikroTik'', model = ''crs326'', source_url = u2\<rparr>]
   = [\<lparr>category = ''switch'', brand = ''MikroTik'', model = ''CRS326'', source_url = u1\<rparr>]"
  by (simp add: mikrotik_finish_def local_dedupe_def dedupe_def dedupe_step_def local_key_def
        assign_category_def classify_def switch_keywords_def py_eval)

lemma near_duplicates_global:
  "global_dedupe near_duplicates = [near_duplicates ! 0, near_duplicates ! 2]"
  by (simp add: global_dedupe_def dedupe_def dedupe_step_def global_key_def near_duplicates_def
        py_eval)


section \<open>The adapters on the concrete worlds\<close>

lemma mikrotik_links_no_anchors:
  "mikrotik_links w empty_page = sort (remdups group_pages)"
  by (simp add: mikrotik_links_def empty_page_def)

lemma switches_world_pages:
  "map (mikrotik_page_rows switches_world) (sort (remdups group_pages)) =
     [Nil, Nil, Nil, Nil,
      mikrotik_selector_rows switches_world switches_url crs_page
        @ mikrotik_card_rows switches_url crs_page,
      []]"
  unfolding sorted_group_pages
  by (simp add: mikrotik_page_rows_def switches_world_def switches_url_def)

lemma fetch_mikrotik_switches_world:
  "fetch_mikrotik switches_world =
     Inr [\<lparr>category = ''switch'', brand = ''MikroTik'', model = ''CRS326'',
            source_url = ''https://mikrotik.com/product/crs326''\<rparr>]"
proof -
  have start: "http_get switches_world (mikrotik_base @ ''/products'') = Some empty_page"
    by (simp add: switches_world_def mikrotik_base_def)
  have join: "urljoin switches_world = (\<lambda>base href. base @ href)"
    by (simp add: switches_world_def)
  show ?thesis
    unfolding fetch_mikrotik_def Let_def start option.case mikrotik_links_no_anchors
      switches_world_pages crs_selector_rows crs_card_rows
    by (simp add: crs_finish join mikrotik_base_def)
qed

lemma vendor_world_pages:
  "map (mikrotik_page_rows vendor_world) (sort (remdups group_pages)) =
     [Nil, Nil, Nil, Nil,
      mikrotik_selector_rows vendor_world switches_url crs_page
        @ mikrotik_card_rows switches_url crs_page,
      []]"
  unfolding sorted_group_pages
  by (simp add: mikrotik_page_rows_def vendor_world_def switches_url_def)

lemma fetch_mikrotik_vendor_world:
  "fetch_mikrotik vendor_world = Inr [vendor_rows ! 0]"
proof -
  have start: "http_get vendor_world (mikrotik_base @ ''/products'') = Some empty_page"
    by (simp add: vendor_world_def mikrotik_base_def)
  have join: "urljoin vendor_world = (\<lambda>base href. base @ href)"
    by (simp add: vendor_world_def)
  show ?thesis
    unfolding fetch_mikrotik_def Let_def start option.case mikrotik_links_no_anchors
      vendor_world_pages crs_selector_rows crs_card_rows
    by (simp add: crs_finish join mikrotik_base_def vendor_rows_def)
qed

lemma local_dedupe_single: "local_dedupe [r] = [r]"
  by (simp add: local_dedupe_def dedupe_def dedupe_step_def)

lemma local_dedupe_Nil: "local_dedupe [] = []"
  by (simp add: local_dedupe_def dedupe_def)

lemma ubiquiti_pages_vendor_world:
  "map (ubiquiti_page_rows vendor_world False None) ubiquiti_urls =
     [vendor_rows ! 1] # [Nil, Nil, Nil, Nil, Nil]"
  by (simp add: ubiquiti_page_rows_def ubiquiti_get_def ubiquiti_urls_def vendor_world_def
        switches_url_def ubiquiti_selector_rows_def ubiquiti_anchor_rows_def
        ubiquiti_selectors_def vendor_rows_def clean_text_def py_strip_def isspace_def)

lemma foldl_ubiquiti_distinct:
  "distinct urls \<Longrightarrow> set urls \<inter> tried = {} \<Longrightarrow>
     snd (foldl (ubiquiti_step w u drv) (tried, rows) urls)
       = rows @ concat (map (ubiquiti_page_rows w u drv) urls)"
  by (induction urls arbitrary: tried rows) (auto simp: ubiquiti_step_def)

lemma ubiquiti_urls_distinct: "distinct ubiquiti_urls"
  by (simp add: ubiquiti_urls_def)

lemma fetch_ubiquiti_pages:
  "fetch_ubiquiti w u drv = local_dedupe (concat (map (ubiquiti_page_rows w u drv) ubiquiti_urls))"
  by (simp add: fetch_ubiquiti_def foldl_ubiquiti_distinct ubiquiti_urls_distinct)

lemma ubiquiti_run_vendor_world:
  "ubiquiti_run vendor_world False True = Inr [vendor_rows ! 1]"
  by (simp add: ubiquiti_run_def fetch_ubiquiti_pages ubiquiti_pages_vendor_world
        local_dedupe_single)

lemma fetch_cambium_vendor_world:
  "fetch_cambium vendor_world = Inr [vendor_rows ! 2]"
  by (simp add: fetch_cambium_def cambium_base_def vendor_world_def switches_url_def
        product_link_rows_def cambium_finder_rows_def local_dedupe_single vendor_rows_def
        clean_text_def py_strip_def isspace_def startswith_def)

lemma fetch_mimosa_vendor_world:
  "fetch_mimosa vendor_world = Inr [vendor_rows ! 3]"
  by (simp add: fetch_mimosa_def mimosa_base_def mimosa_categories_def mimosa_category_rows_def
        vendor_world_def switches_url_def product_link_rows_def local_dedupe_single
        vendor_rows_def clean_text_def py_strip_def isspace_def startswith_def)

lemma rows_all_vendor_world: "rows_all vendor_world False True = vendor_rows"
  by (simp add: rows_all_def contribution_def fetch_mikrotik_vendor_world
        ubiquiti_run_vendor_world fetch_cambium_vendor_world fetch_mimosa_vendor_world
        vendor_rows_def)

lemma global_dedupe_vendor_rows: "global_dedupe vendor_rows = vendor_rows"
  by (simp add: global_dedupe_def dedupe_def dedupe_step_def global_key_def vendor_rows_def
        py_eval)

lemma ubiquiti_pages_offline:
  "ubiquiti_page_rows offline False None = (\<lambda>url. [])"
  by (rule ext) (simp add: ubiquiti_page_rows_def ubiquiti_get_def offline_def)

lemma fetch_ubiquiti_offline: "fetch_ubiquiti offline False None = []"
  by (simp add: fetch_ubiquiti_pages ubiquiti_pages_offline local_dedupe_Nil ubiquiti_urls_def)

lemma rows_all_offline: "rows_all offline False ok = []"
  by (simp add: rows_all_def contribution_def fetch_mikrotik_def fetch_cambium_def
        fetch_mimosa_def ubiquiti_run_def fetch_ubiquiti_offline)
    (simp add: offline_def)

section \<open>The claims about deduplication\<close>









text \<open>
  Claim C7. The model name \<open>hAP ac\<close> followed by a superscript two (U+00B2) and two
  spaces normalizes to the name without the trailing spaces; no switch keyword occurs in
  its lowercased form, the access-point keyword \<open>hap\<close> does, and the MikroTik classifier
  labels it \<open>ap\<close>.
\<close>

theorem hap_ac2_is_ap:
  "clean_text (Some (''hAP ac'' @ [CHR 0xB2] @ ''  '')) = ''hAP ac'' @ [CHR 0xB2]
   \<and> \<not> list_ex (contains (py_lower (''hAP ac'' @ [CHR 0xB2]))) switch_keywords
   \<and> list_ex (contains (py_lower (''hAP ac'' @ [CHR 0xB2]))) ap_keywords
   \<and> classify (clean_text (Some (''hAP ac'' @ [CHR 0xB2] @ ''  ''))) = ''ap''"
  by (simp add: classify_def switch_keywords_def ap_keywords_def py_eval)

section \<open>Categories of the collected rows\<close>

text \<open>
  Claim C10. Every row that reaches the global pass, and so every exported row, carries
  one of the four labels router, switch, ap and ptp, never the empty category: the
  MikroTik adapter assigns one of the four, every Ubiquiti row is an ap, every Cambium and
  every Mimosa row a ptp.
\<close>

theorem category_never_empty:
  "(r \<in> set (rows_all w use_selenium ok) \<union> set (global_dedupe (rows_all w use_selenium ok)) \<longrightarrow>
      category r \<in> {''router'', ''switch'', ''ap'', ''ptp''} \<and> category r \<noteq> [])
   \<and> (r \<in> set (contribution (fetch_mikrotik w)) \<longrightarrow>
        category r \<in> {''router'', ''switch'', ''ap'', ''ptp''})
   \<and> (r \<in> set (contribution (ubiquiti_run w use_selenium ok)) \<longrightarrow> category r = ''ap'')
   \<and> (r \<in> set (contribution (fetch_cambium w)) \<longrightarrow> category r = ''ptp'')
   \<and> (r \<in> set (contribution (fetch_mimosa w)) \<longrightarrow> category r = ''ptp'')"
proof (intro conjI impI)
  assume "r \<in> set (rows_all w use_selenium ok) \<union> set (global_dedupe (rows_all w use_selenium ok))"
  then have "r \<in> set (rows_all w use_selenium ok)"
    using global_dedupe_subset by blast
  then have "category r \<in> labels" using rows_all_shape by blast
  then show "category r \<in> {''router'', ''switch'', ''ap'', ''ptp''}" and "category r \<noteq> []"
    by (auto simp: labels_def)
next
  assume "r \<in> set (contribution (fetch_mikrotik w))"
  then have "category r \<in> labels" using fetch_mikrotik_shape by blast
  then show "category r \<in> {''router'', ''switch'', ''ap'', ''ptp''}"
    by (simp add: labels_def)
next
  assume "r \<in> set (contribution (ubiquiti_run w use_selenium ok))"
  then show "category r = ''ap''" using ubiquiti_run_shape by blast
next
  assume "r \<in> set (contribution (fetch_cambium w))"
  then show "category r = ''ptp''" using fetch_cambium_shape by blast
next
  assume "r \<in> set (contribution (fetch_mimosa w))"
  then show "category r = ''ptp''" using fetch_mimosa_shape by blast
qed

theorem category_never_empty_witness:
  "rows_all vendor_world False True = vendor_rows
   \<and> global_dedupe (rows_all vendor_world False True) = vendor_rows
   \<and> vendor_rows ! 0 \<in> set (contribution (fetch_mikrotik vendor_world))
   \<and> vendor_rows ! 1 \<in> set (contribution (ubiquiti_run vendor_world False True))
   \<and> vendor_rows ! 2 \<in> set (contribution (fetch_cambium vendor_world))
   \<and> vendor_rows ! 3 \<in> set (contribution (fetch_mimosa vendor_world))
   \<and> map category vendor_rows = [''switch'', ''ap'', ''ptp'', ''ptp'']
   \<and> list_all (\<lambda>r. category r \<in> {''router'', ''switch'', ''ap'', ''ptp''} \<and> category r \<noteq> [])
         vendor_rows"
proof -
  have mem: "vendor_rows ! 0 \<in> set (contribution (fetch_mikrotik vendor_world))"
    "vendor_rows ! 1 \<in> set (contribution (ubiquiti_run vendor_world False True))"
    "vendor_rows ! 2 \<in> set (contribution (fetch_cambium vendor_world))"
    "vendor_rows ! 3 \<in> set (contribution (fetch_mimosa vendor_world))"
    by (simp_all add: contribution_def fetch_mikrotik_vendor_world ubiquiti_run_vendor_world
          fetch_cambium_vendor_world fetch_mimosa_vendor_world)
  have all: "\<forall>r \<in> set vendor_rows.
      category r \<in> {''router'', ''switch'', ''ap'', ''ptp''} \<and> category r \<noteq> []"
  proof
    fix r assume "r \<in> set vendor_rows"
    then have "r \<in> set (rows_all vendor_world False True)
                 \<union> set (global_dedupe (rows_all vendor_world False True))"
      by (simp add: rows_all_vendor_world)
    with category_never_empty [of r vendor_world False True]
    show "category r \<in> {''router'', ''switch'', ''ap'', ''ptp''} \<and> category r \<noteq> []"
      by blast
  qed
  have cats: "map category vendor_rows = [''switch'', ''ap'', ''ptp'', ''ptp'']"
    by (simp add: vendor_rows_def)
  from all have every:
    "list_all (\<lambda>r. category r \<in> {''router'', ''switch'', ''ap'', ''ptp''} \<and> category r \<noteq> [])
       vendor_rows"
    by (simp only: list_all_iff)
  show ?thesis
    using mem every cats by (simp add: rows_all_vendor_world global_dedupe_vendor_rows)
qed

section \<open>Failures\<close>

lemma dedupe_from_keys:
  "key ` set (dedupe_from key S rows) = key ` set rows - S"
  by (induction rows arbitrary: S) auto

lemma local_dedupe_keys: "local_key ` set (local_dedupe rows) = local_key ` set rows"
  by (simp add: local_dedupe_def dedupe_eq_from dedupe_from_keys)

lemma local_key_assign_category: "local_key (assign_category r) = local_key r"
  by (simp add: local_key_def assign_category_def)

lemma mikrotik_finish_keys: "local_key ` set (mikrotik_finish rows) = local_key ` set rows"
proof -
  have "local_key ` set (mikrotik_finish rows) = local_key ` set (local_dedupe rows)"
    by (auto simp: mikrotik_finish_def local_key_assign_category image_iff)
  then show ?thesis by (simp add: local_dedupe_keys)
qed

lemma skip_failed_pages:
  "http_get w url = None \<Longrightarrow>
     concat (map (mikrotik_page_rows w) urls)
       = concat (map (mikrotik_page_rows w) (filter (\<lambda>x. x \<noteq> url) urls))"
  by (induction urls) (auto simp: mikrotik_page_rows_def)

text \<open>
  Claim C5. An adapter whose run raises contributes no row, and the rows of the run are
  those of the other adapters. In the MikroTik adapter a candidate page whose request
  raises is skipped: as long as the start page answers the adapter returns rows, computed
  from the remaining candidate pages as if the failed page had not been a candidate, and
  every row of a remaining page is represented in the result by a row of its key.
\<close>

theorem failures_stay_local:
  "(fetch_mikrotik w = Inl e \<longrightarrow>
      rows_all w use_selenium ok
        = contribution (ubiquiti_run w use_selenium ok) @ contribution (fetch_cambium w)
          @ contribution (fetch_mimosa w))
   \<and> (ubiquiti_run w use_selenium ok = Inl e \<longrightarrow>
      rows_all w use_selenium ok
        = contribution (fetch_mikrotik w) @ contribution (fetch_cambium w)
          @ contribution (fetch_mimosa w))
   \<and> (fetch_cambium w = Inl e \<longrightarrow>
      rows_all w use_selenium ok
        = contribution (fetch_mikrotik w) @ contribution (ubiquiti_run w use_selenium ok)
          @ contribution (fetch_mimosa w))
   \<and> (fetch_mimosa w = Inl e \<longrightarrow>
      rows_all w use_selenium ok
        = contribution (fetch_mikrotik w) @ contribution (ubiquiti_run w use_selenium ok)
          @ contribution (fetch_cambium w))
   \<and> (http_get w (mikrotik_base @ ''/products'') = Some soup \<and> http_get w url = None \<longrightarrow>
        fetch_mikrotik w
          = Inr (mikrotik_finish (concat (map (mikrotik_page_rows w)
                   (filter (\<lambda>x. x \<noteq> url) (mikrotik_links w soup)))))
        \<and> (\<forall>other \<in> set (mikrotik_links w soup). \<forall>r \<in> set (mikrotik_page_rows w other).
              \<exists>kept \<in> set (contribution (fetch_mikrotik w)). local_key kept = local_key r))"
proof (intro conjI impI)
  assume h: "http_get w (mikrotik_base @ ''/products'') = Some soup \<and> http_get w url = None"
  let ?raw = "concat (map (mikrotik_page_rows w) (mikrotik_links w soup))"
  from h have res: "fetch_mikrotik w = Inr (mikrotik_finish ?raw)"
    by (simp add: fetch_mikrotik_def)
  from h show "fetch_mikrotik w
          = Inr (mikrotik_finish (concat (map (mikrotik_page_rows w)
                   (filter (\<lambda>x. x \<noteq> url) (mikrotik_links w soup)))))"
    unfolding res using skip_failed_pages [of w url "mikrotik_links w soup"] by simp
  show "\<forall>other \<in> set (mikrotik_links w soup). \<forall>r \<in> set (mikrotik_page_rows w other).
          \<exists>kept \<in> set (contribution (fetch_mikrotik w)). local_key kept = local_key r"
  proof (intro ballI)
    fix other r
    assume "other \<in> set (mikrotik_links w soup)" and "r \<in> set (mikrotik_page_rows w other)"
    then have "r \<in> set ?raw" by auto
    then have "local_key r \<in> local_key ` set (mikrotik_finish ?raw)"
      by (simp add: mikrotik_finish_keys)
    then show "\<exists>kept \<in> set (contribution (fetch_mikrotik w)). local_key kept = local_key r"
      by (auto simp: res contribution_def)
  qed
qed (simp_all add: rows_all_def contribution_def)

lemma switches_world_failures:
  "ubiquiti_run switches_world True True = Inl WebDriverError"
  "fetch_cambium switches_world = Inl (RequestError ''https://www.cambiumnetworks.com/products/'')"
  "fetch_mimosa switches_world = Inl (RequestError ''https://mimosa.co/products'')"
  by (simp_all add: ubiquiti_run_def fetch_cambium_def fetch_mimosa_def switches_world_def
        cambium_base_def mimosa_base_def switches_url_def)

lemma fetch_mikrotik_offline:
  "fetch_mikrotik offline = Inl (RequestError ''https://mikrotik.com/products'')"
  by (simp add: fetch_mikrotik_def offline_def mikrotik_base_def)

theorem failures_stay_local_witness:
  "ubiquiti_run switches_world True True = Inl WebDriverError
   \<and> fetch_cambium switches_world = Inl (RequestError ''https://www.cambiumnetworks.com/products/'')
   \<and> fetch_mimosa switches_world = Inl (RequestError ''https://mimosa.co/products'')
   \<and> rows_all switches_world True True
       = [\<lparr>category = ''switch'', brand = ''MikroTik'', model = ''CRS326'',
            source_url = ''https://mikrotik.com/product/crs326''\<rparr>]
   \<and> fetch_mikrotik offline = Inl (RequestError ''https://mikrotik.com/products'')
   \<and> rows_all offline False True = []
   \<and> http_get switches_world (mikrotik_base @ ''/products'') = Some empty_page
   \<and> http_get switches_world ''https://mikrotik.com/products/group/lte-5g'' = None
   \<and> fetch_mikrotik switches_world
       = Inr (mikrotik_finish (concat (map (mikrotik_page_rows switches_world)
                (filter (\<lambda>x. x \<noteq> ''https://mikrotik.com/products/group/lte-5g'')
                   (mikrotik_links switches_world empty_page)))))
   \<and> fetch_mikrotik switches_world
       = Inr [\<lparr>category = ''switch'', brand = ''MikroTik'', model = ''CRS326'',
                source_url = ''https://mikrotik.com/product/crs326''\<rparr>]"
proof -
  have start: "http_get switches_world (mikrotik_base @ ''/products'') = Some empty_page"
    and page: "http_get switches_world ''https://mikrotik.com/products/group/lte-5g'' = None"
    by (simp_all add: switches_world_def mikrotik_base_def switches_url_def)
  note down = failures_stay_local
    [where w = switches_world and use_selenium = True and ok = True and soup = empty_page
       and url = "''https://mikrotik.com/products/group/lte-5g''"]
  from down [where e = WebDriverError] switches_world_failures(1)
  have "rows_all switches_world True True
          = contribution (fetch_mikrotik switches_world)
            @ contribution (fetch_cambium switches_world)
            @ contribution (fetch_mimosa switches_world)"
    by blast
  then have run: "rows_all switches_world True True
       = [\<lparr>category = ''switch'', brand = ''MikroTik'', model = ''CRS326'',
            source_url = ''https://mikrotik.com/product/crs326''\<rparr>]"
    by (simp add: switches_world_failures fetch_mikrotik_switches_world contribution_def)
  from down [where e = WebDriverError] start page
  have skipped: "fetch_mikrotik switches_world
       = Inr (mikrotik_finish (concat (map (mikrotik_page_rows switches_world)
                (filter (\<lambda>x. x \<noteq> ''https://mikrotik.com/products/group/lte-5g'')
                   (mikrotik_links switches_world empty_page)))))"
    by blast
  from failures_stay_local
    [where w = offline and use_selenium = False and ok = True
       and e = "RequestError ''https://mikrotik.com/products''"]
    fetch_mikrotik_offline
  have "rows_all offline False True
          = contribution (ubiquiti_run offline False True) @ contribution (fetch_cambium offline)
            @ contribution (fetch_mimosa offline)"
    by blast
  then have off: "rows_all offline False True = []"
    by (simp add: rows_all_offline)
  show ?thesis
    using switches_world_failures run fetch_mikrotik_offline off start page skipped
      fetch_mikrotik_switches_world
    by simp
qed

text \<open>
  Claim C6, evaluated where it fails. Without the selenium flag and with every request
  raising, all four adapters contribute nothing, grouping the empty frame by brand raises
  \<open>KeyError\<close>, and the process ends with status 1. With the flag given and selenium
  missing the process exits with status 1 before the runner starts, whatever the network
  would answer.
\<close>

theorem exit_status_offline:
  "main False selenium_ok offline = Raised (KeyError ''brand'')
   \<and> exit_status (main False selenium_ok offline) = 1
   \<and> main True False w = ExitAtStartup"
  by (simp add: main_def run_all_def rows_all_offline global_dedupe_def dedupe_def
        brand_groups_def)

section \<open>Candidate extraction\<close>











text \<open>
  Claim C3, evaluated where it fails. On a page where the selector \<open>h3\<close> matches a title,
  the card heuristic still emits a row, and the model of that row is the whole normalized
  text of the container, not its first line \<open>hEX S\<close>: the text is normalized before it is
  split into lines, and a normalized text has no line break left.
\<close>

theorem card_rows_beside_selector_rows:
  "http_get card_world switches_url = Some card_page
   \<and> mikrotik_selector_rows card_world switches_url card_page
       = [\<lparr>category = [], brand = ''MikroTik'', model = ''RB5009'', source_url = switches_url\<rparr>]
   \<and> mikrotik_page_rows card_world switches_url
       = [\<lparr>category = [], brand = ''MikroTik'', model = ''RB5009'', source_url = switches_url\<rparr>,
          \<lparr>category = [], brand = ''MikroTik'', model = ''hEX S 5x Gigabit Ethernet'',
            source_url = switches_url\<rparr>]
   \<and> first_line (''hEX S'' @ [LF] @ ''5x Gigabit Ethernet'') = ''hEX S''
   \<and> card_name el = clean_text (Some (el_text el))"
proof -
  have sel: "mikrotik_selector_rows card_world switches_url card_page
       = [\<lparr>category = [], brand = ''MikroTik'', model = ''RB5009'', source_url = switches_url\<rparr>]"
    by (simp add: mikrotik_selector_rows_def sel_candidates_def card_page_def card_selector_def
          mikrotik_source_def clean_text_def py_strip_def isspace_def startswith_def
          switches_url_def)
  have name: "clean_text (Some (''hEX S'' @ [LF] @ ''5x Gigabit Ethernet''))
                = ''hEX S 5x Gigabit Ethernet''"
    by (simp add: clean_text_def py_strip_def isspace_def LF_def)
  have cards: "mikrotik_card_rows switches_url card_page
       = [\<lparr>category = [], brand = ''MikroTik'', model = ''hEX S 5x Gigabit Ethernet'',
            source_url = switches_url\<rparr>]"
    using name by (simp add: mikrotik_card_rows_def card_name_clean card_page_def card_selector_def)
  have got: "http_get card_world switches_url = Some card_page"
    by (simp add: card_world_def)
  have line: "first_line (''hEX S'' @ [LF] @ ''5x Gigabit Ethernet'') = ''hEX S''"
    by (simp add: first_line_def is_linebreak_def LF_def)
  show ?thesis
    using sel cards got line by (simp add: mikrotik_page_rows_def card_name_clean)
qed

section \<open>The exported file read back\<close>

lemma csv_chars [simp]:
  "CR \<noteq> LF" "LF \<noteq> CR" "CR \<noteq> CHR 0x22" "LF \<noteq> CHR 0x22" "CR \<noteq> CHR '',''" "LF \<noteq> CHR '',''"
  "CHR 0x22 \<noteq> CR" "CHR 0x22 \<noteq> LF" "CHR '','' \<noteq> CR" "CHR '','' \<noteq> LF"
  by (simp_all add: CR_def LF_def)
























lemma tricky_rows_csv:
  "parse_csv (save_to_csv tricky_rows)
     = Some ([''category'', ''brand'', ''model'', ''source_url'']
             # [[''ap'', ''Ubiquiti'', ''U6, Lite'',
                  ''https://ui.com/a?x='' @ [CHR 0x22, CHR 0x22] @ ''b''],
                 [[], ''Cambium'', ''PTP'' @ [CR, LF] @ ''550'', [CR]]])"
  by (simp add: parse_csv_def save_to_csv_def writerow_def csv_field_def special_def
        double_quotes_def keys_def row_values_def tricky_rows_def parse_reset_def
        feed_line_def parse_process_char_def start_field_def parse_save_field_def
        parse_add_char_def CR_def LF_def)

section \<open>The exit status\<close>

lemma global_dedupe_Nil_iff: "global_dedupe rows = [] \<longleftrightarrow> rows = []"
  by (cases rows) (simp_all add: global_dedupe_def dedupe_eq_from)

lemma exit_status_nonzero_iff:
  "exit_status (main use_selenium selenium_ok w) \<noteq> 0 \<longleftrightarrow>
     (use_selenium \<and> \<not> selenium_ok) \<or> rows_all w use_selenium selenium_ok = []"
  by (auto simp: main_def run_all_def brand_groups_def global_dedupe_Nil_iff Let_def)

end
